theory Spec2Isabelle
  imports Main "HOL-Library.FSet"
begin

section \<open>The configuration file \<^verbatim>\<open>etc/jupyterhub_config_comanage.py\<close>\<close>

text \<open>
  The file is a straight-line Python module: one \<^verbatim>\<open>import\<close>, four stores into
  \<^verbatim>\<open>os.environ\<close>, two \<^verbatim>\<open>from ... import\<close> statements and fourteen attribute stores
  on the settings object \<^verbatim>\<open>c\<close>. Each statement is embedded as a function from the
  interpreter state to an error or the next state, and the module body is the list of
  these functions in source order.
\<close>

subsection \<open>Values, errors and the interpreter state\<close>

text \<open>
  The Python values the file builds or names: string, integer and boolean literals,
  list displays, set displays, the module object bound by \<^verbatim>\<open>import\<close>, an object bound
  by \<^verbatim>\<open>from m import n\<close> (known only by where it was imported from), and the settings
  object that the loader binds to \<^verbatim>\<open>c\<close>.
\<close>

datatype pyval =
    PyStr string
  | PyInt int
  | PyBool bool
  | PyList "pyval list"
  | PySet "pyval fset"
  | PyModule string
  | PyImported string string
  | PyConfig

text \<open>The two kinds of place the file stores into.\<close>

datatype target =
    Environ string
  | Trait string string

text \<open>
  The exceptions the statements of the file can raise. \<^verbatim>\<open>ModuleNotFoundError\<close> is a
  subclass of \<^verbatim>\<open>ImportError\<close> and is not told apart from it; the argument is the module.
\<close>

datatype error =
    ImportError string
  | NameError string
  | AttributeError string

text \<open>
  \<open>globals\<close> is the namespace the module body runs in, \<open>environ\<close> is \<^verbatim>\<open>os.environ\<close>,
  \<open>config\<close> is the settings object, addressed by class name and trait name.
  \<open>stores\<close> and \<open>loads\<close> record the history of the run: every store with the value
  stored, and every name read, in the order they happen.
\<close>

record pystate =
  globals :: "string \<rightharpoonup> pyval"
  environ :: "string \<rightharpoonup> string"
  config :: "string \<times> string \<rightharpoonup> pyval"
  stores :: "(target \<times> pyval) list"
  loads :: "string list"

text \<open>
  The modules that can be imported in the running interpreter, each with the names it
  exports. This is the part of the environment the file depends on.
\<close>

type_synonym modules = "string \<Rightarrow> string list option"

subsection \<open>Statements\<close>

text \<open>\<^verbatim>\<open>import m\<close> (for a name without dots): binds \<^verbatim>\<open>m\<close> to the module object.\<close>

definition import_module :: "modules \<Rightarrow> string \<Rightarrow> pystate \<Rightarrow> error + pystate" where
  "import_module mods m s =
     (case mods m of
        None \<Rightarrow> Inl (ImportError m)
      | Some exported \<Rightarrow> Inr (s\<lparr>globals := (globals s)(m \<mapsto> PyModule m)\<rparr>))"

text \<open>
  \<^verbatim>\<open>from m import n1, n2, ...\<close>: the module is imported, then each name is fetched from
  it and bound, left to right; a name the module does not have raises \<^verbatim>\<open>ImportError\<close>.
\<close>

fun bind_names :: "string \<Rightarrow> string list \<Rightarrow> string list \<Rightarrow> pystate \<Rightarrow> error + pystate" where
  "bind_names m exported [] s = Inr s"
| "bind_names m exported (n # ns) s =
     (if n \<in> set exported
      then bind_names m exported ns (s\<lparr>globals := (globals s)(n \<mapsto> PyImported m n)\<rparr>)
      else Inl (ImportError m))"

definition from_import :: "modules \<Rightarrow> string \<Rightarrow> string list \<Rightarrow> pystate \<Rightarrow> error + pystate" where
  "from_import mods m ns s =
     (case mods m of
        None \<Rightarrow> Inl (ImportError m)
      | Some exported \<Rightarrow> bind_names m exported ns s)"

text \<open>Reading a global name: \<^verbatim>\<open>NameError\<close> when it is not bound.\<close>

definition load_name :: "string \<Rightarrow> pystate \<Rightarrow> error + (pyval \<times> pystate)" where
  "load_name n s =
     (case globals s n of
        None \<Rightarrow> Inl (NameError n)
      | Some v \<Rightarrow> Inr (v, s\<lparr>loads := loads s @ [n]\<rparr>))"

text \<open>A literal or display on the right-hand side of an assignment.\<close>

definition literal :: "pyval \<Rightarrow> pystate \<Rightarrow> error + (pyval \<times> pystate)" where
  "literal v s = Inr (v, s)"

text \<open>
  \<^verbatim>\<open>os.environ[k] = v\<close> with a string literal \<open>v\<close>: the name \<^verbatim>\<open>os\<close> is read, and the
  item is stored in the environment of the process.
\<close>

definition environ_setitem :: "string \<Rightarrow> string \<Rightarrow> pystate \<Rightarrow> error + pystate" where
  "environ_setitem k v s =
     (case load_name ''os'' s of
        Inl e \<Rightarrow> Inl e
      | Inr (obj, s1) \<Rightarrow>
          (if obj = PyModule ''os''
           then Inr (s1\<lparr>environ := (environ s1)(k \<mapsto> v),
                        stores := stores s1 @ [(Environ k, PyStr v)]\<rparr>)
           else Inl (AttributeError ''environ'')))"

text \<open>
  \<^verbatim>\<open>c.Class.trait = rhs\<close>: Python evaluates the right-hand side first, then reads
  \<^verbatim>\<open>c\<close>. The settings object belongs to the hosting runtime, whose code is not part of
  this repository: reading a section whose name starts with a capital letter creates
  the section when it is absent, so the attribute store itself cannot fail, and the
  object is a mapping from (class, trait) to the value last stored.
\<close>

definition config_setattr ::
  "string \<Rightarrow> string \<Rightarrow> (pystate \<Rightarrow> error + (pyval \<times> pystate)) \<Rightarrow> pystate \<Rightarrow> error + pystate" where
  "config_setattr cls trait rhs s =
     (case rhs s of
        Inl e \<Rightarrow> Inl e
      | Inr (v, s1) \<Rightarrow>
          (case load_name ''c'' s1 of
             Inl e \<Rightarrow> Inl e
           | Inr (obj, s2) \<Rightarrow>
               (if obj = PyConfig
                then Inr (s2\<lparr>config := (config s2)((cls, trait) \<mapsto> v),
                             stores := stores s2 @ [(Trait cls trait, v)]\<rparr>)
                else Inl (AttributeError cls))))"

text \<open>Statements run in order; the first exception ends the run.\<close>

fun run :: "(pystate \<Rightarrow> error + pystate) list \<Rightarrow> pystate \<Rightarrow> error + pystate" where
  "run [] s = Inr s"
| "run (stmt # stmts) s =
     (case stmt s of
        Inl e \<Rightarrow> Inl e
      | Inr s' \<Rightarrow> run stmts s')"

subsection \<open>The module body\<close>

definition jupyterhub_config_comanage :: "modules \<Rightarrow> (pystate \<Rightarrow> error + pystate) list" where
  "jupyterhub_config_comanage mods =
     [ import_module mods ''os'',
       environ_setitem ''CILOGON_HOST'' ''cilogon.org'',
       environ_setitem ''CILOGON_CLIENT_ID''
         ''cilogon:/client_id/5ea8818a26318a9dc03d8a1f82bef34a'',
       environ_setitem ''CILOGON_CLIENT_SECRET''
         ''XXXXXXXXXXXXXXXXXXXXXXXXXXXXXXXXXXXXXXXXXXXXXXXXXXXXXXXXXXXXXXXXXXXXXXXXXXXx'',
       environ_setitem ''JUPYTERHUB_CRYPT_KEY''
         ''XXXXXXXXXXXXXXXXXXXXXXXXXXXXXXXXXXXXXXXXXXXXXXXXXXXXXXXXXXXXxxxx'',
       from_import mods ''oauthenticator.comanage''
         [''COManageOAuthenticator'', ''LocalCOManageOAuthenticator''],
       from_import mods ''jupyterhub.comanage'' [''NormalizedSpawner''],
       config_setattr ''JupyterHub'' ''authenticator_class''
         (load_name ''LocalCOManageOAuthenticator''),
       config_setattr ''COManageOAuthenticator'' ''oauth_callback_url''
         (literal (PyStr ''https://jupyter05.sdcc.bnl.gov:8000/hub/oauth_callback'')),
       config_setattr ''COManageOAuthenticator'' ''idp_whitelist''
         (literal (PyList [PyStr ''bnl.gov'', PyStr ''anl.gov'', PyStr ''ornl.gov'',
                           PyStr ''lbl.gov''])),
       config_setattr ''COManageOAuthenticator'' ''comanage_group_whitelist''
         (literal (PyList [PyStr ''CO:members:active'', PyStr ''bnl''])),
       config_setattr ''JupyterHub'' ''cookie_secret_file''
         (literal (PyStr ''/usr/local/anaconda3/etc/jupyterhub/jupyterhub_cookie_secret'')),
       config_setattr ''ConfigurableHTTPProxy'' ''debug'' (literal (PyBool True)),
       config_setattr ''JupyterHub'' ''log_level'' (literal (PyInt 10)),
       config_setattr ''JupyterHub'' ''spawner_class''
         (literal (PyStr ''jupyterhub.spawner.LocalProcessSpawner'')),
       config_setattr ''JupyterHub'' ''ssl_cert''
         (literal (PyStr ''/usr/local/anaconda3/etc/jupyterhub/ssl/certificate.crt'')),
       config_setattr ''JupyterHub'' ''ssl_key''
         (literal (PyStr ''/usr/local/anaconda3/etc/jupyterhub/ssl/key.pem'')),
       config_setattr ''Spawner'' ''debug'' (literal (PyBool True)),
       config_setattr ''Authenticator'' ''admin_users''
         (literal (PySet {|PyStr ''jhover@bnl.gov''|})),
       config_setattr ''Authenticator'' ''enable_auth_state'' (literal (PyBool True)),
       config_setattr ''LocalAuthenticator'' ''create_system_users'' (literal (PyBool True)) ]"

subsection \<open>Loading\<close>

text \<open>
  The file is run by the loader of the hosting runtime, an external program: it
  executes the file as configuration in a namespace where \<^verbatim>\<open>c\<close> is a fresh settings
  object. The environment of the process, \<open>env\<close>, is whatever the process was started
  with, and the histories start empty.
\<close>

definition initial_state :: "(string \<rightharpoonup> string) \<Rightarrow> pystate" where
  "initial_state env =
     \<lparr>globals = [''c'' \<mapsto> PyConfig], environ = env, config = Map.empty,
      stores = [], loads = []\<rparr>"

definition load_config_file :: "modules \<Rightarrow> (string \<rightharpoonup> string) \<Rightarrow> error + pystate" where
  "load_config_file mods env = run (jupyterhub_config_comanage mods) (initial_state env)"

subsection \<open>The environments the file is loaded in\<close>

text \<open>The module \<open>m\<close> can be imported and has the name \<open>n\<close>.\<close>

definition exports :: "modules \<Rightarrow> string \<Rightarrow> string \<Rightarrow> bool" where
  "exports mods m n = (case mods m of None \<Rightarrow> False | Some exported \<Rightarrow> n \<in> set exported)"

text \<open>What the three import statements of the file need from the interpreter.\<close>

definition referenced_importable :: "modules \<Rightarrow> bool" where
  "referenced_importable mods =
     (mods ''os'' \<noteq> None \<and>
      exports mods ''oauthenticator.comanage'' ''COManageOAuthenticator'' \<and>
      exports mods ''oauthenticator.comanage'' ''LocalCOManageOAuthenticator'' \<and>
      exports mods ''jupyterhub.comanage'' ''NormalizedSpawner'')"

text \<open>
  Two concrete interpreters: one where both plugin modules are installed, and one where
  \<^verbatim>\<open>jupyterhub.comanage\<close> is not.
\<close>

definition hub_modules :: modules where
  "hub_modules m =
     (if m = ''os'' then Some [''environ'']
      else if m = ''oauthenticator.comanage''
        then Some [''COManageOAuthenticator'', ''LocalCOManageOAuthenticator'']
      else if m = ''jupyterhub.comanage'' then Some [''NormalizedSpawner'']
      else None)"

definition stock_modules :: modules where
  "stock_modules m =
     (if m = ''os'' then Some [''environ'']
      else if m = ''oauthenticator.comanage''
        then Some [''COManageOAuthenticator'', ''LocalCOManageOAuthenticator'']
      else None)"

subsection \<open>Vocabulary of the specification\<close>

text \<open>
  The option table of the specification, row by row, as the places each row names:
  host, client id and client secret of the identity provider, the session-signing key,
  the authenticator class, the callback URL, the two whitelists, the cookie-secret
  file, the proxy debug flag, the log level, the spawner class, the TLS certificate and
  key, the administrative users, the auth-state flag and the local-account flag.
\<close>

definition spec_option_table :: "target list" where
  "spec_option_table =
     [ Environ ''CILOGON_HOST'', Environ ''CILOGON_CLIENT_ID'',
       Environ ''CILOGON_CLIENT_SECRET'',
       Environ ''JUPYTERHUB_CRYPT_KEY'',
       Trait ''JupyterHub'' ''authenticator_class'',
       Trait ''COManageOAuthenticator'' ''oauth_callback_url'',
       Trait ''COManageOAuthenticator'' ''idp_whitelist'',
       Trait ''COManageOAuthenticator'' ''comanage_group_whitelist'',
       Trait ''JupyterHub'' ''cookie_secret_file'',
       Trait ''ConfigurableHTTPProxy'' ''debug'',
       Trait ''JupyterHub'' ''log_level'',
       Trait ''JupyterHub'' ''spawner_class'',
       Trait ''JupyterHub'' ''ssl_cert'', Trait ''JupyterHub'' ''ssl_key'',
       Trait ''Authenticator'' ''admin_users'',
       Trait ''Authenticator'' ''enable_auth_state'',
       Trait ''LocalAuthenticator'' ''create_system_users'' ]"

text \<open>
  The kinds of value the data model of the specification allows: a simple scalar, a
  set of strings, a file-path string.
\<close>

fun is_str :: "pyval \<Rightarrow> bool" where
  "is_str (PyStr x) = True"
| "is_str v = False"

fun simple_scalar :: "pyval \<Rightarrow> bool" where
  "simple_scalar (PyStr x) = True"
| "simple_scalar (PyInt i) = True"
| "simple_scalar (PyBool b) = True"
| "simple_scalar v = False"

fun set_of_strings :: "pyval \<Rightarrow> bool" where
  "set_of_strings (PySet vs) = fBall vs is_str"
| "set_of_strings v = False"

fun file_path_string :: "pyval \<Rightarrow> bool" where
  "file_path_string (PyStr p) = (take 1 p = ''/'')"
| "file_path_string v = False"

definition spec_value_kind :: "pyval \<Rightarrow> bool" where
  "spec_value_kind v = (simple_scalar v \<or> set_of_strings v \<or> file_path_string v)"

text \<open>The two further kinds of value the file assigns.\<close>

fun list_of_strings :: "pyval \<Rightarrow> bool" where
  "list_of_strings (PyList vs) = list_all is_str vs"
| "list_of_strings v = False"

fun imported_object :: "pyval \<Rightarrow> bool" where
  "imported_object (PyImported m n) = True"
| "imported_object v = False"

definition file_value_kind :: "pyval \<Rightarrow> bool" where
  "file_value_kind v = (spec_value_kind v \<or> list_of_strings v \<or> imported_object v)"

text \<open>Reading a place back from the state, as the running service does.\<close>

fun read_target :: "pystate \<Rightarrow> target \<Rightarrow> pyval option" where
  "read_target s (Environ k) = map_option PyStr (environ s k)"
| "read_target s (Trait cls trait) = config s (cls, trait)"

fun is_environ :: "target \<Rightarrow> bool" where
  "is_environ (Environ k) = True"
| "is_environ (Trait cls trait) = False"

section \<open>Properties of loading the file\<close>

subsection \<open>The state after a successful load\<close>

lemmas stmt_defs = import_module_def from_import_def load_name_def literal_def
  environ_setitem_def config_setattr_def

lemma load_state:
  assumes "referenced_importable mods"
  shows "load_config_file mods env = Inr
    \<lparr>globals = [''c'' \<mapsto> PyConfig, ''os'' \<mapsto> PyModule ''os'',
        ''COManageOAuthenticator'' \<mapsto>
          PyImported ''oauthenticator.comanage'' ''COManageOAuthenticator'',
        ''LocalCOManageOAuthenticator'' \<mapsto>
          PyImported ''oauthenticator.comanage'' ''LocalCOManageOAuthenticator'',
        ''NormalizedSpawner'' \<mapsto> PyImported ''jupyterhub.comanage'' ''NormalizedSpawner''],
     environ = env(''CILOGON_HOST'' \<mapsto> ''cilogon.org'',
        ''CILOGON_CLIENT_ID'' \<mapsto> ''cilogon:/client_id/5ea8818a26318a9dc03d8a1f82bef34a'',
        ''CILOGON_CLIENT_SECRET'' \<mapsto>
          ''XXXXXXXXXXXXXXXXXXXXXXXXXXXXXXXXXXXXXXXXXXXXXXXXXXXXXXXXXXXXXXXXXXXXXXXXXXXx'',
        ''JUPYTERHUB_CRYPT_KEY'' \<mapsto>
          ''XXXXXXXXXXXXXXXXXXXXXXXXXXXXXXXXXXXXXXXXXXXXXXXXXXXXXXXXXXXXxxxx''),
     config = [
        (''JupyterHub'', ''authenticator_class'') \<mapsto>
          PyImported ''oauthenticator.comanage'' ''LocalCOManageOAuthenticator'',
        (''COManageOAuthenticator'', ''oauth_callback_url'') \<mapsto>
          PyStr ''https://jupyter05.sdcc.bnl.gov:8000/hub/oauth_callback'',
        (''COManageOAuthenticator'', ''idp_whitelist'') \<mapsto>
          PyList [PyStr ''bnl.gov'', PyStr ''anl.gov'', PyStr ''ornl.gov'', PyStr ''lbl.gov''],
        (''COManageOAuthenticator'', ''comanage_group_whitelist'') \<mapsto>
          PyList [PyStr ''CO:members:active'', PyStr ''bnl''],
        (''JupyterHub'', ''cookie_secret_file'') \<mapsto>
          PyStr ''/usr/local/anaconda3/etc/jupyterhub/jupyterhub_cookie_secret'',
        (''ConfigurableHTTPProxy'', ''debug'') \<mapsto> PyBool True,
        (''JupyterHub'', ''log_level'') \<mapsto> PyInt 10,
        (''JupyterHub'', ''spawner_class'') \<mapsto>
          PyStr ''jupyterhub.spawner.LocalProcessSpawner'',
        (''JupyterHub'', ''ssl_cert'') \<mapsto>
          PyStr ''/usr/local/anaconda3/etc/jupyterhub/ssl/certificate.crt'',
        (''JupyterHub'', ''ssl_key'') \<mapsto>
          PyStr ''/usr/local/anaconda3/etc/jupyterhub/ssl/key.pem'',
        (''Spawner'', ''debug'') \<mapsto> PyBool True,
        (''Authenticator'', ''admin_users'') \<mapsto> PySet {|PyStr ''jhover@bnl.gov''|},
        (''Authenticator'', ''enable_auth_state'') \<mapsto> PyBool True,
        (''LocalAuthenticator'', ''create_system_users'') \<mapsto> PyBool True],
     stores = [
        (Environ ''CILOGON_HOST'', PyStr ''cilogon.org''),
        (Environ ''CILOGON_CLIENT_ID'',
          PyStr ''cilogon:/client_id/5ea8818a26318a9dc03d8a1f82bef34a''),
        (Environ ''CILOGON_CLIENT_SECRET'', PyStr
          ''XXXXXXXXXXXXXXXXXXXXXXXXXXXXXXXXXXXXXXXXXXXXXXXXXXXXXXXXXXXXXXXXXXXXXXXXXXXx''),
        (Environ ''JUPYTERHUB_CRYPT_KEY'', PyStr
          ''XXXXXXXXXXXXXXXXXXXXXXXXXXXXXXXXXXXXXXXXXXXXXXXXXXXXXXXXXXXXxxxx''),
        (Trait ''JupyterHub'' ''authenticator_class'',
          PyImported ''oauthenticator.comanage'' ''LocalCOManageOAuthenticator''),
        (Trait ''COManageOAuthenticator'' ''oauth_callback_url'',
          PyStr ''https://jupyter05.sdcc.bnl.gov:8000/hub/oauth_callback''),
        (Trait ''COManageOAuthenticator'' ''idp_whitelist'',
          PyList [PyStr ''bnl.gov'', PyStr ''anl.gov'', PyStr ''ornl.gov'', PyStr ''lbl.gov'']),
        (Trait ''COManageOAuthenticator'' ''comanage_group_whitelist'',
          PyList [PyStr ''CO:members:active'', PyStr ''bnl'']),
        (Trait ''JupyterHub'' ''cookie_secret_file'',
          PyStr ''/usr/local/anaconda3/etc/jupyterhub/jupyterhub_cookie_secret''),
        (Trait ''ConfigurableHTTPProxy'' ''debug'', PyBool True),
        (Trait ''JupyterHub'' ''log_level'', PyInt 10),
        (Trait ''JupyterHub'' ''spawner_class'',
          PyStr ''jupyterhub.spawner.LocalProcessSpawner''),
        (Trait ''JupyterHub'' ''ssl_cert'',
          PyStr ''/usr/local/anaconda3/etc/jupyterhub/ssl/certificate.crt''),
        (Trait ''JupyterHub'' ''ssl_key'',
          PyStr ''/usr/local/anaconda3/etc/jupyterhub/ssl/key.pem''),
        (Trait ''Spawner'' ''debug'', PyBool True),
        (Trait ''Authenticator'' ''admin_users'', PySet {|PyStr ''jhover@bnl.gov''|}),
        (Trait ''Authenticator'' ''enable_auth_state'', PyBool True),
        (Trait ''LocalAuthenticator'' ''create_system_users'', PyBool True)],
     loads = [''os'', ''os'', ''os'', ''os'', ''LocalCOManageOAuthenticator'',
        ''c'', ''c'', ''c'', ''c'', ''c'', ''c'', ''c'', ''c'', ''c'', ''c'', ''c'', ''c'',
        ''c'', ''c'']\<rparr>"
proof -
  from assms obtain e1 e2 e3 where m:
    "mods ''os'' = Some e1"
    "mods ''oauthenticator.comanage'' = Some e2"
    "''COManageOAuthenticator'' \<in> set e2" "''LocalCOManageOAuthenticator'' \<in> set e2"
    "mods ''jupyterhub.comanage'' = Some e3" "''NormalizedSpawner'' \<in> set e3"
    by (auto simp: referenced_importable_def exports_def split: option.splits)
  show ?thesis
    unfolding load_config_file_def jupyterhub_config_comanage_def initial_state_def
    by (simp add: stmt_defs m)
qed

lemma hub_modules_importable: "referenced_importable hub_modules"
  by (simp add: referenced_importable_def exports_def hub_modules_def)

subsection \<open>When an import fails\<close>

text \<open>
  The statements before the first attribute store on \<^verbatim>\<open>c\<close> are the three imports
  and the four environment stores. The environment stores cannot fail once \<^verbatim>\<open>os\<close> is
  bound, so this prefix either raises \<^verbatim>\<open>ImportError\<close> or the imports all succeeded.
\<close>

lemma run_append:
  "run (xs @ ys) s = (case run xs s of Inl e \<Rightarrow> Inl e | Inr s' \<Rightarrow> run ys s')"
  by (induction xs arbitrary: s) (auto split: sum.splits)

lemma imports_fail:
  assumes "\<not> referenced_importable mods"
  shows "\<exists>m. run (take 7 (jupyterhub_config_comanage mods)) s = Inl (ImportError m)"
  using assms
  unfolding jupyterhub_config_comanage_def referenced_importable_def exports_def
  by (auto simp: stmt_defs split: option.splits)

lemma load_ImportError:
  assumes "\<not> referenced_importable mods"
  shows "\<exists>m. load_config_file mods env = Inl (ImportError m)"
proof -
  let ?body = "jupyterhub_config_comanage mods"
  from imports_fail [OF assms] obtain m where
    "run (take 7 ?body) (initial_state env) = Inl (ImportError m)" by blast
  moreover have "run ?body (initial_state env) =
      (case run (take 7 ?body) (initial_state env) of
         Inl e \<Rightarrow> Inl e | Inr s' \<Rightarrow> run (drop 7 ?body) s')"
    using run_append [of "take 7 ?body" "drop 7 ?body"] by simp
  ultimately show ?thesis by (simp add: load_config_file_def)
qed

lemma load_Inr_importable:
  assumes "load_config_file mods env = Inr s"
  shows "referenced_importable mods"
  using assms load_ImportError [of mods env] by auto

subsection \<open>Lists without repetition\<close>

lemma count_list_distinct: "distinct xs \<Longrightarrow> x \<in> set xs \<Longrightarrow> count_list xs x = 1"
  by (induction xs) auto

subsection \<open>What loading populates\<close>

text \<open>
  C1, as the specification states it: loading populates exactly the places of the
  option table. The file also stores the debug flag of the spawner, which the table
  does not list, so the places stored are not those of the table.
\<close>

theorem spawner_debug_outside_option_table:
  "\<not> isl (load_config_file hub_modules Map.empty) \<and>
   config (projr (load_config_file hub_modules Map.empty)) (''Spawner'', ''debug'') =
     Some (PyBool True) \<and>
   Trait ''Spawner'' ''debug'' \<in> set (map fst (stores (projr (load_config_file hub_modules Map.empty)))) \<and>
   Trait ''Spawner'' ''debug'' \<notin> set spec_option_table \<and>
   set (map fst (stores (projr (load_config_file hub_modules Map.empty)))) \<noteq> set spec_option_table"
proof -
  have notin: "Trait ''Spawner'' ''debug'' \<notin> set spec_option_table"
    by (simp add: spec_option_table_def)
  have "\<not> isl (load_config_file hub_modules Map.empty) \<and>
    config (projr (load_config_file hub_modules Map.empty)) (''Spawner'', ''debug'') =
      Some (PyBool True) \<and>
    Trait ''Spawner'' ''debug'' \<in> set (map fst (stores (projr (load_config_file hub_modules Map.empty))))"
    using load_state [OF hub_modules_importable, of Map.empty] by simp
  with notin show ?thesis by blast
qed

text \<open>
  C1, amended: whenever the modules the file imports can be imported and export the
  imported names, loading does not raise; the places it stores into are those of the
  option table together with the debug flag of the spawner; the four environment
  variables and the fourteen settings hold the values written in the file (the
  authenticator class being the object imported as LocalCOManageOAuthenticator); and the
  settings object holds nothing else.
\<close>

theorem load_populates_table_and_spawner_debug:
  assumes "referenced_importable mods"
  shows "\<exists>s. load_config_file mods env = Inr s \<and>
    set (map fst (stores s)) = set spec_option_table \<union> {Trait ''Spawner'' ''debug''} \<and>
    environ s = env(''CILOGON_HOST'' \<mapsto> ''cilogon.org'',
        ''CILOGON_CLIENT_ID'' \<mapsto> ''cilogon:/client_id/5ea8818a26318a9dc03d8a1f82bef34a'',
        ''CILOGON_CLIENT_SECRET'' \<mapsto>
          ''XXXXXXXXXXXXXXXXXXXXXXXXXXXXXXXXXXXXXXXXXXXXXXXXXXXXXXXXXXXXXXXXXXXXXXXXXXXx'',
        ''JUPYTERHUB_CRYPT_KEY'' \<mapsto>
          ''XXXXXXXXXXXXXXXXXXXXXXXXXXXXXXXXXXXXXXXXXXXXXXXXXXXXXXXXXXXXxxxx'') \<and>
    config s = [
        (''JupyterHub'', ''authenticator_class'') \<mapsto>
          PyImported ''oauthenticator.comanage'' ''LocalCOManageOAuthenticator'',
        (''COManageOAuthenticator'', ''oauth_callback_url'') \<mapsto>
          PyStr ''https://jupyter05.sdcc.bnl.gov:8000/hub/oauth_callback'',
        (''COManageOAuthenticator'', ''idp_whitelist'') \<mapsto>
          PyList [PyStr ''bnl.gov'', PyStr ''anl.gov'', PyStr ''ornl.gov'', PyStr ''lbl.gov''],
        (''COManageOAuthenticator'', ''comanage_group_whitelist'') \<mapsto>
          PyList [PyStr ''CO:members:active'', PyStr ''bnl''],
        (''JupyterHub'', ''cookie_secret_file'') \<mapsto>
          PyStr ''/usr/local/anaconda3/etc/jupyterhub/jupyterhub_cookie_secret'',
        (''ConfigurableHTTPProxy'', ''debug'') \<mapsto> PyBool True,
        (''JupyterHub'', ''log_level'') \<mapsto> PyInt 10,
        (''JupyterHub'', ''spawner_class'') \<mapsto>
          PyStr ''jupyterhub.spawner.LocalProcessSpawner'',
        (''JupyterHub'', ''ssl_cert'') \<mapsto>
          PyStr ''/usr/local/anaconda3/etc/jupyterhub/ssl/certificate.crt'',
        (''JupyterHub'', ''ssl_key'') \<mapsto>
          PyStr ''/usr/local/anaconda3/etc/jupyterhub/ssl/key.pem'',
        (''Spawner'', ''debug'') \<mapsto> PyBool True,
        (''Authenticator'', ''admin_users'') \<mapsto> PySet {|PyStr ''jhover@bnl.gov''|},
        (''Authenticator'', ''enable_auth_state'') \<mapsto> PyBool True,
        (''LocalAuthenticator'', ''create_system_users'') \<mapsto> PyBool True]"
proof -
  let ?extra = "Trait ''Spawner'' ''debug''"
  from load_state [OF assms, of env] obtain s where s: "load_config_file mods env = Inr s"
    by blast
  have "map fst (stores s) = take 14 spec_option_table @ ?extra # drop 14 spec_option_table"
    using s load_state [OF assms, of env] by (auto simp: spec_option_table_def)
  then have "set (map fst (stores s)) =
      set (take 14 spec_option_table @ drop 14 spec_option_table) \<union> {?extra}"
    by (simp only: set_append list.set) blast
  then have places: "set (map fst (stores s)) = set spec_option_table \<union> {?extra}"
    by (simp only: append_take_drop_id)
  have rest: "environ s = env(''CILOGON_HOST'' \<mapsto> ''cilogon.org'',
        ''CILOGON_CLIENT_ID'' \<mapsto> ''cilogon:/client_id/5ea8818a26318a9dc03d8a1f82bef34a'',
        ''CILOGON_CLIENT_SECRET'' \<mapsto>
          ''XXXXXXXXXXXXXXXXXXXXXXXXXXXXXXXXXXXXXXXXXXXXXXXXXXXXXXXXXXXXXXXXXXXXXXXXXXXx'',
        ''JUPYTERHUB_CRYPT_KEY'' \<mapsto>
          ''XXXXXXXXXXXXXXXXXXXXXXXXXXXXXXXXXXXXXXXXXXXXXXXXXXXXXXXXXXXXxxxx'') \<and>
    config s = [
        (''JupyterHub'', ''authenticator_class'') \<mapsto>
          PyImported ''oauthenticator.comanage'' ''LocalCOManageOAuthenticator'',
        (''COManageOAuthenticator'', ''oauth_callback_url'') \<mapsto>
          PyStr ''https://jupyter05.sdcc.bnl.gov:8000/hub/oauth_callback'',
        (''COManageOAuthenticator'', ''idp_whitelist'') \<mapsto>
          PyList [PyStr ''bnl.gov'', PyStr ''anl.gov'', PyStr ''ornl.gov'', PyStr ''lbl.gov''],
        (''COManageOAuthenticator'', ''comanage_group_whitelist'') \<mapsto>
          PyList [PyStr ''CO:members:active'', PyStr ''bnl''],
        (''JupyterHub'', ''cookie_secret_file'') \<mapsto>
          PyStr ''/usr/local/anaconda3/etc/jupyterhub/jupyterhub_cookie_secret'',
        (''ConfigurableHTTPProxy'', ''debug'') \<mapsto> PyBool True,
        (''JupyterHub'', ''log_level'') \<mapsto> PyInt 10,
        (''JupyterHub'', ''spawner_class'') \<mapsto>
          PyStr ''jupyterhub.spawner.LocalProcessSpawner'',
        (''JupyterHub'', ''ssl_cert'') \<mapsto>
          PyStr ''/usr/local/anaconda3/etc/jupyterhub/ssl/certificate.crt'',
        (''JupyterHub'', ''ssl_key'') \<mapsto>
          PyStr ''/usr/local/anaconda3/etc/jupyterhub/ssl/key.pem'',
        (''Spawner'', ''debug'') \<mapsto> PyBool True,
        (''Authenticator'', ''admin_users'') \<mapsto> PySet {|PyStr ''jhover@bnl.gov''|},
        (''Authenticator'', ''enable_auth_state'') \<mapsto> PyBool True,
        (''LocalAuthenticator'', ''create_system_users'') \<mapsto> PyBool True]"
    using s load_state [OF assms, of env] by auto
  show ?thesis
    by (rule exI [of _ s]) (intro conjI s places conjunct1 [OF rest] conjunct2 [OF rest])
qed

theorem load_populates_table_and_spawner_debug_witness:
  "referenced_importable hub_modules \<and>
   \<not> isl (load_config_file hub_modules Map.empty) \<and>
   set (map fst (stores (projr (load_config_file hub_modules Map.empty)))) =
     set spec_option_table \<union> {Trait ''Spawner'' ''debug''} \<and>
   config (projr (load_config_file hub_modules Map.empty)) (''JupyterHub'', ''ssl_key'') =
     Some (PyStr ''/usr/local/anaconda3/etc/jupyterhub/ssl/key.pem'') \<and>
   environ (projr (load_config_file hub_modules Map.empty)) ''CILOGON_HOST'' =
     Some ''cilogon.org''"
proof -
  from load_populates_table_and_spawner_debug [OF hub_modules_importable, of Map.empty]
  obtain s where "load_config_file hub_modules Map.empty = Inr s"
    and "set (map fst (stores s)) = set spec_option_table \<union> {Trait ''Spawner'' ''debug''}"
    and "config s (''JupyterHub'', ''ssl_key'') =
      Some (PyStr ''/usr/local/anaconda3/etc/jupyterhub/ssl/key.pem'')"
    and "environ s ''CILOGON_HOST'' = Some ''cilogon.org''"
    by auto
  then show ?thesis using hub_modules_importable by simp
qed

subsection \<open>Kinds of value\<close>

text \<open>
  C2, as the specification states it: every value the file assigns is a simple scalar,
  a set of strings or a file-path string. The value assigned to the authenticator class
  is the imported class object, and the two whitelists are lists, so the values
  assigned are not all of those kinds.
\<close>

theorem assigned_values_outside_spec_kinds:
  "\<not> isl (load_config_file hub_modules Map.empty) \<and>
   (Trait ''JupyterHub'' ''authenticator_class'',
      PyImported ''oauthenticator.comanage'' ''LocalCOManageOAuthenticator'')
     \<in> set (stores (projr (load_config_file hub_modules Map.empty))) \<and>
   \<not> spec_value_kind (PyImported ''oauthenticator.comanage'' ''LocalCOManageOAuthenticator'') \<and>
   (Trait ''COManageOAuthenticator'' ''idp_whitelist'',
      PyList [PyStr ''bnl.gov'', PyStr ''anl.gov'', PyStr ''ornl.gov'', PyStr ''lbl.gov''])
     \<in> set (stores (projr (load_config_file hub_modules Map.empty))) \<and>
   \<not> spec_value_kind
       (PyList [PyStr ''bnl.gov'', PyStr ''anl.gov'', PyStr ''ornl.gov'', PyStr ''lbl.gov'']) \<and>
   \<not> list_all spec_value_kind (map snd (stores (projr (load_config_file hub_modules Map.empty))))"
  using load_state [OF hub_modules_importable, of Map.empty]
  by (simp add: spec_value_kind_def)

text \<open>
  C2, amended: every value the file assigns is a simple scalar, a set of strings, a
  file-path string, a list of strings or an imported object; the values that are not
  of the first three kinds are those of the authenticator class (an imported object)
  and of the two whitelists (lists of strings), and no others.
\<close>

theorem assigned_values_kinds:
  assumes "referenced_importable mods"
  shows "\<exists>s. load_config_file mods env = Inr s \<and>
    list_all file_value_kind (map snd (stores s)) \<and>
    map fst (filter (\<lambda>(t, v). \<not> spec_value_kind v) (stores s)) =
      [Trait ''JupyterHub'' ''authenticator_class'',
       Trait ''COManageOAuthenticator'' ''idp_whitelist'',
       Trait ''COManageOAuthenticator'' ''comanage_group_whitelist''] \<and>
    map_option imported_object (config s (''JupyterHub'', ''authenticator_class'')) =
      Some True \<and>
    map_option list_of_strings (config s (''COManageOAuthenticator'', ''idp_whitelist'')) =
      Some True \<and>
    map_option list_of_strings
      (config s (''COManageOAuthenticator'', ''comanage_group_whitelist'')) = Some True"
  using load_state [OF assms, of env]
  by (simp add: file_value_kind_def spec_value_kind_def)

theorem assigned_values_kinds_witness:
  "referenced_importable hub_modules \<and>
   \<not> isl (load_config_file hub_modules Map.empty) \<and>
   list_all file_value_kind (map snd (stores (projr (load_config_file hub_modules Map.empty))))"
proof -
  from assigned_values_kinds [OF hub_modules_importable, of Map.empty]
  obtain s where "load_config_file hub_modules Map.empty = Inr s"
    and "list_all file_value_kind (map snd (stores s))"
    by auto
  then show ?thesis using hub_modules_importable by simp
qed

subsection \<open>Set once\<close>

text \<open>
  C3. During loading no settings key and no environment variable is stored more than
  once: every place the file stores into occurs exactly once in the history of stores,
  and reading the place back after loading gives the value that was stored.
\<close>

theorem every_place_stored_once:
  assumes "referenced_importable mods"
  shows "\<exists>s. load_config_file mods env = Inr s \<and>
    distinct (map fst (stores s)) \<and>
    (\<forall>t \<in> set (map fst (stores s)). count_list (map fst (stores s)) t = 1) \<and>
    (\<forall>(t, v) \<in> set (stores s). read_target s t = Some v)"
proof -
  from load_state [OF assms, of env] obtain s where s: "load_config_file mods env = Inr s"
    by blast
  have d: "distinct (map fst (stores s))"
    using s load_state [OF assms, of env] by auto
  have r: "\<forall>(t, v) \<in> set (stores s). read_target s t = Some v"
    using s load_state [OF assms, of env] by auto
  from d have "\<forall>t \<in> set (map fst (stores s)). count_list (map fst (stores s)) t = 1"
    by (simp add: count_list_distinct)
  with s d r show ?thesis by blast
qed

theorem every_place_stored_once_witness:
  "referenced_importable hub_modules \<and>
   \<not> isl (load_config_file hub_modules Map.empty) \<and>
   count_list (map fst (stores (projr (load_config_file hub_modules Map.empty))))
     (Trait ''JupyterHub'' ''log_level'') = 1 \<and>
   read_target (projr (load_config_file hub_modules Map.empty))
     (Trait ''JupyterHub'' ''log_level'') = Some (PyInt 10)"
proof -
  from every_place_stored_once [OF hub_modules_importable, of Map.empty]
  obtain s where s: "load_config_file hub_modules Map.empty = Inr s"
    and c: "\<forall>t \<in> set (map fst (stores s)). count_list (map fst (stores s)) t = 1"
    and r: "\<forall>(t, v) \<in> set (stores s). read_target s t = Some v"
    by auto
  have m: "(Trait ''JupyterHub'' ''log_level'', PyInt 10) \<in> set (stores s)"
    using s load_state [OF hub_modules_importable, of Map.empty] by auto
  then have "Trait ''JupyterHub'' ''log_level'' \<in> set (map fst (stores s))"
    by force
  with c have "count_list (map fst (stores s)) (Trait ''JupyterHub'' ''log_level'') = 1"
    by blast
  moreover from r m have "read_target s (Trait ''JupyterHub'' ''log_level'') = Some (PyInt 10)"
    by blast
  ultimately show ?thesis using s hub_modules_importable by simp
qed

subsection \<open>The environment of the process\<close>

text \<open>
  C4, as the specification states it: after loading, the environment of the process
  holds exactly the four variables the file sets. The file only adds to the
  environment it finds: started with PATH and OAUTH_CALLBACK_URL set, the process
  still has both after loading, so the environment is not those four variables alone.
\<close>

theorem environ_keeps_inherited_variables:
  "\<not> isl (load_config_file hub_modules
       [''PATH'' \<mapsto> ''/usr/bin'', ''OAUTH_CALLBACK_URL'' \<mapsto> ''https://localhost/cb'']) \<and>
   environ (projr (load_config_file hub_modules
       [''PATH'' \<mapsto> ''/usr/bin'', ''OAUTH_CALLBACK_URL'' \<mapsto> ''https://localhost/cb'']))
     ''PATH'' = Some ''/usr/bin'' \<and>
   environ (projr (load_config_file hub_modules
       [''PATH'' \<mapsto> ''/usr/bin'', ''OAUTH_CALLBACK_URL'' \<mapsto> ''https://localhost/cb'']))
     ''OAUTH_CALLBACK_URL'' = Some ''https://localhost/cb'' \<and>
   dom (environ (projr (load_config_file hub_modules
       [''PATH'' \<mapsto> ''/usr/bin'', ''OAUTH_CALLBACK_URL'' \<mapsto> ''https://localhost/cb'']))) \<noteq>
     {''CILOGON_HOST'', ''CILOGON_CLIENT_ID'', ''CILOGON_CLIENT_SECRET'', ''JUPYTERHUB_CRYPT_KEY''}"
proof -
  let ?env = "[''PATH'' \<mapsto> ''/usr/bin'', ''OAUTH_CALLBACK_URL'' \<mapsto> ''https://localhost/cb'']"
  let ?s = "projr (load_config_file hub_modules ?env)"
  have ok: "\<not> isl (load_config_file hub_modules ?env)"
    and path: "environ ?s ''PATH'' = Some ''/usr/bin''"
    and url: "environ ?s ''OAUTH_CALLBACK_URL'' = Some ''https://localhost/cb''"
    using load_state [OF hub_modules_importable, of ?env] by simp_all
  have differ: "dom (environ ?s) \<noteq>
      {''CILOGON_HOST'', ''CILOGON_CLIENT_ID'', ''CILOGON_CLIENT_SECRET'', ''JUPYTERHUB_CRYPT_KEY''}"
  proof
    assume eq: "dom (environ ?s) =
      {''CILOGON_HOST'', ''CILOGON_CLIENT_ID'', ''CILOGON_CLIENT_SECRET'', ''JUPYTERHUB_CRYPT_KEY''}"
    from path have "''PATH'' \<in> dom (environ ?s)" by (rule domI)
    then have "''PATH'' \<in>
      {''CILOGON_HOST'', ''CILOGON_CLIENT_ID'', ''CILOGON_CLIENT_SECRET'', ''JUPYTERHUB_CRYPT_KEY''}"
      by (simp only: eq)
    then show False by simp
  qed
  show ?thesis by (intro conjI ok path url differ)
qed

text \<open>
  C4, amended: after loading, the environment of the process is the one the process
  started with, updated at exactly four variables, each bound to the string written in
  the file: CILOGON_HOST to cilogon.org, CILOGON_CLIENT_ID, CILOGON_CLIENT_SECRET and
  JUPYTERHUB_CRYPT_KEY. These four are the only environment stores of the file, and
  they are all the stores that happen before the authenticator class is selected.
\<close>

theorem environ_after_load:
  assumes "referenced_importable mods"
  shows "\<exists>s. load_config_file mods env = Inr s \<and>
    environ s = env(''CILOGON_HOST'' \<mapsto> ''cilogon.org'',
        ''CILOGON_CLIENT_ID'' \<mapsto> ''cilogon:/client_id/5ea8818a26318a9dc03d8a1f82bef34a'',
        ''CILOGON_CLIENT_SECRET'' \<mapsto>
          ''XXXXXXXXXXXXXXXXXXXXXXXXXXXXXXXXXXXXXXXXXXXXXXXXXXXXXXXXXXXXXXXXXXXXXXXXXXXx'',
        ''JUPYTERHUB_CRYPT_KEY'' \<mapsto>
          ''XXXXXXXXXXXXXXXXXXXXXXXXXXXXXXXXXXXXXXXXXXXXXXXXXXXXXXXXXXXXxxxx'') \<and>
    dom (environ s) = dom env \<union>
      {''CILOGON_HOST'', ''CILOGON_CLIENT_ID'', ''CILOGON_CLIENT_SECRET'', ''JUPYTERHUB_CRYPT_KEY''} \<and>
    filter is_environ (map fst (stores s)) =
      [Environ ''CILOGON_HOST'', Environ ''CILOGON_CLIENT_ID'',
       Environ ''CILOGON_CLIENT_SECRET'', Environ ''JUPYTERHUB_CRYPT_KEY''] \<and>
    takeWhile (\<lambda>t. t \<noteq> Trait ''JupyterHub'' ''authenticator_class'') (map fst (stores s)) =
      [Environ ''CILOGON_HOST'', Environ ''CILOGON_CLIENT_ID'',
       Environ ''CILOGON_CLIENT_SECRET'', Environ ''JUPYTERHUB_CRYPT_KEY''] \<and>
    Trait ''JupyterHub'' ''authenticator_class'' \<in> set (map fst (stores s))"
proof -
  from load_state [OF assms, of env] obtain s where s: "load_config_file mods env = Inr s"
    by blast
  have e: "environ s = env(''CILOGON_HOST'' \<mapsto> ''cilogon.org'',
        ''CILOGON_CLIENT_ID'' \<mapsto> ''cilogon:/client_id/5ea8818a26318a9dc03d8a1f82bef34a'',
        ''CILOGON_CLIENT_SECRET'' \<mapsto>
          ''XXXXXXXXXXXXXXXXXXXXXXXXXXXXXXXXXXXXXXXXXXXXXXXXXXXXXXXXXXXXXXXXXXXXXXXXXXXx'',
        ''JUPYTERHUB_CRYPT_KEY'' \<mapsto>
          ''XXXXXXXXXXXXXXXXXXXXXXXXXXXXXXXXXXXXXXXXXXXXXXXXXXXXXXXXXXXXxxxx'')"
    using s load_state [OF assms, of env] by auto
  have d: "dom (environ s) = dom env \<union>
      {''CILOGON_HOST'', ''CILOGON_CLIENT_ID'', ''CILOGON_CLIENT_SECRET'', ''JUPYTERHUB_CRYPT_KEY''}"
    by (simp only: e dom_fun_upd) auto
  have h: "filter is_environ (map fst (stores s)) =
      [Environ ''CILOGON_HOST'', Environ ''CILOGON_CLIENT_ID'',
       Environ ''CILOGON_CLIENT_SECRET'', Environ ''JUPYTERHUB_CRYPT_KEY'']"
    "takeWhile (\<lambda>t. t \<noteq> Trait ''JupyterHub'' ''authenticator_class'') (map fst (stores s)) =
      [Environ ''CILOGON_HOST'', Environ ''CILOGON_CLIENT_ID'',
       Environ ''CILOGON_CLIENT_SECRET'', Environ ''JUPYTERHUB_CRYPT_KEY'']"
    "Trait ''JupyterHub'' ''authenticator_class'' \<in> set (map fst (stores s))"
    using s load_state [OF assms, of env] by auto
  show ?thesis
    by (rule exI [of _ s]) (intro conjI s e d h)
qed

theorem environ_after_load_witness:
  "referenced_importable hub_modules \<and>
   \<not> isl (load_config_file hub_modules [''PATH'' \<mapsto> ''/usr/bin'']) \<and>
   dom (environ (projr (load_config_file hub_modules [''PATH'' \<mapsto> ''/usr/bin'']))) =
     {''PATH'', ''CILOGON_HOST'', ''CILOGON_CLIENT_ID'', ''CILOGON_CLIENT_SECRET'',
      ''JUPYTERHUB_CRYPT_KEY''} \<and>
   environ (projr (load_config_file hub_modules [''PATH'' \<mapsto> ''/usr/bin''])) ''CILOGON_HOST'' =
     Some ''cilogon.org''"
proof -
  let ?env = "[''PATH'' \<mapsto> ''/usr/bin'']"
  from environ_after_load [OF hub_modules_importable, of ?env]
  obtain s where s: "load_config_file hub_modules ?env = Inr s"
    and e: "environ s = ?env(''CILOGON_HOST'' \<mapsto> ''cilogon.org'',
        ''CILOGON_CLIENT_ID'' \<mapsto> ''cilogon:/client_id/5ea8818a26318a9dc03d8a1f82bef34a'',
        ''CILOGON_CLIENT_SECRET'' \<mapsto>
          ''XXXXXXXXXXXXXXXXXXXXXXXXXXXXXXXXXXXXXXXXXXXXXXXXXXXXXXXXXXXXXXXXXXXXXXXXXXXx'',
        ''JUPYTERHUB_CRYPT_KEY'' \<mapsto>
          ''XXXXXXXXXXXXXXXXXXXXXXXXXXXXXXXXXXXXXXXXXXXXXXXXXXXXXXXXXXXXxxxx'')"
    and d: "dom (environ s) = dom ?env \<union>
      {''CILOGON_HOST'', ''CILOGON_CLIENT_ID'', ''CILOGON_CLIENT_SECRET'', ''JUPYTERHUB_CRYPT_KEY''}"
    by (elim exE conjE) (rule that)
  have p: "projr (load_config_file hub_modules ?env) = s"
    by (simp only: s sum.sel)
  have ok: "\<not> isl (load_config_file hub_modules ?env)"
    by (simp only: s sum.disc not_False_eq_True)
  have h: "environ s ''CILOGON_HOST'' = Some ''cilogon.org''"
    by (simp add: e)
  have d': "dom (environ s) =
     {''PATH'', ''CILOGON_HOST'', ''CILOGON_CLIENT_ID'', ''CILOGON_CLIENT_SECRET'',
      ''JUPYTERHUB_CRYPT_KEY''}"
    by (simp only: d dom_fun_upd dom_empty option.simps if_False Un_insert_left Un_empty_left)
  show ?thesis
    unfolding p by (intro conjI hub_modules_importable ok d' h)
qed

subsection \<open>Whitelists\<close>

text \<open>
  C5. After loading, the identity-provider domain whitelist is the four domains
  bnl.gov, anl.gov, ornl.gov and lbl.gov and nothing else, and the group-membership
  whitelist is the two groups CO:members:active and bnl and nothing else.
\<close>

theorem whitelists_loaded:
  assumes "referenced_importable mods"
  shows "\<exists>s idps groups. load_config_file mods env = Inr s \<and>
    config s (''COManageOAuthenticator'', ''idp_whitelist'') = Some (PyList idps) \<and>
    idps = [PyStr ''bnl.gov'', PyStr ''anl.gov'', PyStr ''ornl.gov'', PyStr ''lbl.gov''] \<and>
    set idps = {PyStr ''bnl.gov'', PyStr ''anl.gov'', PyStr ''ornl.gov'', PyStr ''lbl.gov''} \<and>
    config s (''COManageOAuthenticator'', ''comanage_group_whitelist'') = Some (PyList groups) \<and>
    groups = [PyStr ''CO:members:active'', PyStr ''bnl''] \<and>
    set groups = {PyStr ''CO:members:active'', PyStr ''bnl''}"
  using load_state [OF assms, of env] by simp

theorem whitelists_loaded_witness:
  "referenced_importable hub_modules \<and>
   \<not> isl (load_config_file hub_modules Map.empty) \<and>
   config (projr (load_config_file hub_modules Map.empty))
     (''COManageOAuthenticator'', ''idp_whitelist'') =
     Some (PyList [PyStr ''bnl.gov'', PyStr ''anl.gov'', PyStr ''ornl.gov'', PyStr ''lbl.gov'']) \<and>
   config (projr (load_config_file hub_modules Map.empty))
     (''COManageOAuthenticator'', ''comanage_group_whitelist'') =
     Some (PyList [PyStr ''CO:members:active'', PyStr ''bnl''])"
proof -
  from whitelists_loaded [OF hub_modules_importable, of Map.empty]
  obtain s where "load_config_file hub_modules Map.empty = Inr s"
    and "config s (''COManageOAuthenticator'', ''idp_whitelist'') =
      Some (PyList [PyStr ''bnl.gov'', PyStr ''anl.gov'', PyStr ''ornl.gov'', PyStr ''lbl.gov''])"
    and "config s (''COManageOAuthenticator'', ''comanage_group_whitelist'') =
      Some (PyList [PyStr ''CO:members:active'', PyStr ''bnl''])"
    by auto
  then show ?thesis using hub_modules_importable by simp
qed

subsection \<open>Spawner selection\<close>

text \<open>
  C6. The spawner class in the loaded settings is the local-process spawner, given as
  the dotted string jupyterhub.spawner.LocalProcessSpawner.
\<close>

theorem spawner_class_loaded:
  assumes "referenced_importable mods"
  shows "\<exists>s. load_config_file mods env = Inr s \<and>
    config s (''JupyterHub'', ''spawner_class'') =
      Some (PyStr ''jupyterhub.spawner.LocalProcessSpawner'')"
  using load_state [OF assms, of env] by simp

theorem spawner_class_loaded_witness:
  "referenced_importable hub_modules \<and>
   \<not> isl (load_config_file hub_modules Map.empty) \<and>
   config (projr (load_config_file hub_modules Map.empty)) (''JupyterHub'', ''spawner_class'') =
     Some (PyStr ''jupyterhub.spawner.LocalProcessSpawner'')"
proof -
  from spawner_class_loaded [OF hub_modules_importable, of Map.empty]
  obtain s where "load_config_file hub_modules Map.empty = Inr s"
    and "config s (''JupyterHub'', ''spawner_class'') =
      Some (PyStr ''jupyterhub.spawner.LocalProcessSpawner'')"
    by auto
  then show ?thesis using hub_modules_importable by simp
qed

subsection \<open>Administrators and account flags\<close>

text \<open>
  C7. After loading, the set of administrative users holds the single user
  jhover@bnl.gov, the flag that enables persisted authentication state is True, and the
  flag that creates a local account on first login is True.
\<close>

theorem admin_and_flags_loaded:
  assumes "referenced_importable mods"
  shows "\<exists>s. load_config_file mods env = Inr s \<and>
    config s (''Authenticator'', ''admin_users'') = Some (PySet {|PyStr ''jhover@bnl.gov''|}) \<and>
    config s (''Authenticator'', ''enable_auth_state'') = Some (PyBool True) \<and>
    config s (''LocalAuthenticator'', ''create_system_users'') = Some (PyBool True)"
  using load_state [OF assms, of env] by simp

theorem admin_and_flags_loaded_witness:
  "referenced_importable hub_modules \<and>
   \<not> isl (load_config_file hub_modules Map.empty) \<and>
   config (projr (load_config_file hub_modules Map.empty)) (''Authenticator'', ''admin_users'') =
     Some (PySet {|PyStr ''jhover@bnl.gov''|}) \<and>
   config (projr (load_config_file hub_modules Map.empty))
     (''Authenticator'', ''enable_auth_state'') = Some (PyBool True) \<and>
   config (projr (load_config_file hub_modules Map.empty))
     (''LocalAuthenticator'', ''create_system_users'') = Some (PyBool True)"
proof -
  from admin_and_flags_loaded [OF hub_modules_importable, of Map.empty]
  obtain s where "load_config_file hub_modules Map.empty = Inr s"
    and "config s (''Authenticator'', ''admin_users'') = Some (PySet {|PyStr ''jhover@bnl.gov''|})"
    and "config s (''Authenticator'', ''enable_auth_state'') = Some (PyBool True)"
    and "config s (''LocalAuthenticator'', ''create_system_users'') = Some (PyBool True)"
    by auto
  then show ?thesis using hub_modules_importable by simp
qed

subsection \<open>The unused import\<close>

text \<open>
  C8. Loading succeeds only if the module jupyterhub.comanage can be imported (and has
  the name NormalizedSpawner); when the module cannot be imported, loading ends in an
  ImportError. Yet after a successful load the name NormalizedSpawner, though bound,
  has never been read, and the spawner class in the settings is the dotted string
  jupyterhub.spawner.LocalProcessSpawner, not the imported object.
\<close>

theorem load_needs_unused_import:
  "(mods ''jupyterhub.comanage'' = None \<longrightarrow>
      (\<exists>m. load_config_file mods env = Inl (ImportError m))) \<and>
   (\<forall>s. load_config_file mods env = Inr s \<longrightarrow>
      mods ''jupyterhub.comanage'' \<noteq> None \<and>
      exports mods ''jupyterhub.comanage'' ''NormalizedSpawner'' \<and>
      globals s ''NormalizedSpawner'' =
        Some (PyImported ''jupyterhub.comanage'' ''NormalizedSpawner'') \<and>
      ''NormalizedSpawner'' \<notin> set (loads s) \<and>
      PyImported ''jupyterhub.comanage'' ''NormalizedSpawner'' \<notin> set (map snd (stores s)) \<and>
      config s (''JupyterHub'', ''spawner_class'') =
        Some (PyStr ''jupyterhub.spawner.LocalProcessSpawner''))"
proof (intro conjI impI allI)
  assume "mods ''jupyterhub.comanage'' = None"
  then have "\<not> referenced_importable mods"
    by (simp add: referenced_importable_def exports_def)
  then show "\<exists>m. load_config_file mods env = Inl (ImportError m)"
    by (rule load_ImportError)
next
  fix s assume s: "load_config_file mods env = Inr s"
  then have imp: "referenced_importable mods" by (rule load_Inr_importable)
  then show "exports mods ''jupyterhub.comanage'' ''NormalizedSpawner''"
    by (simp add: referenced_importable_def)
  then show "mods ''jupyterhub.comanage'' \<noteq> None"
    by (auto simp: exports_def split: option.splits)
  show "globals s ''NormalizedSpawner'' =
      Some (PyImported ''jupyterhub.comanage'' ''NormalizedSpawner'')"
    using s load_state [OF imp, of env] by auto
  show "''NormalizedSpawner'' \<notin> set (loads s)"
    using s load_state [OF imp, of env] by auto
  show "PyImported ''jupyterhub.comanage'' ''NormalizedSpawner'' \<notin> set (map snd (stores s))"
    using s load_state [OF imp, of env] by auto
  show "config s (''JupyterHub'', ''spawner_class'') =
      Some (PyStr ''jupyterhub.spawner.LocalProcessSpawner'')"
    using s load_state [OF imp, of env] by auto
qed

theorem load_needs_unused_import_witness:
  "stock_modules ''jupyterhub.comanage'' = None \<and>
   isl (load_config_file stock_modules Map.empty) \<and>
   load_config_file hub_modules Map.empty =
     Inr (projr (load_config_file hub_modules Map.empty)) \<and>
   hub_modules ''jupyterhub.comanage'' \<noteq> None \<and>
   ''NormalizedSpawner'' \<notin> set (loads (projr (load_config_file hub_modules Map.empty))) \<and>
   config (projr (load_config_file hub_modules Map.empty)) (''JupyterHub'', ''spawner_class'') =
     Some (PyStr ''jupyterhub.spawner.LocalProcessSpawner'')"
proof -
  have none: "stock_modules ''jupyterhub.comanage'' = None"
    by (simp add: stock_modules_def)
  with load_needs_unused_import [of stock_modules Map.empty]
  have fails: "isl (load_config_file stock_modules Map.empty)" by auto
  have ok: "load_config_file hub_modules Map.empty =
      Inr (projr (load_config_file hub_modules Map.empty))"
    using load_state [OF hub_modules_importable, of Map.empty] by simp
  with load_needs_unused_import [of hub_modules Map.empty]
  have "hub_modules ''jupyterhub.comanage'' \<noteq> None \<and>
    ''NormalizedSpawner'' \<notin> set (loads (projr (load_config_file hub_modules Map.empty))) \<and>
    config (projr (load_config_file hub_modules Map.empty)) (''JupyterHub'', ''spawner_class'') =
      Some (PyStr ''jupyterhub.spawner.LocalProcessSpawner'')"
    by blast
  with none fails ok show ?thesis by blast
qed

subsection \<open>Debug output\<close>

text \<open>
  C9. Loading sets the debug flag of the proxy, the debug flag of the spawner and the
  log level 10, so all three are in force together after loading.
\<close>

theorem debug_settings_loaded:
  assumes "referenced_importable mods"
  shows "\<exists>s. load_config_file mods env = Inr s \<and>
    config s (''ConfigurableHTTPProxy'', ''debug'') = Some (PyBool True) \<and>
    config s (''Spawner'', ''debug'') = Some (PyBool True) \<and>
    config s (''JupyterHub'', ''log_level'') = Some (PyInt 10)"
  using load_state [OF assms, of env] by simp

theorem debug_settings_loaded_witness:
  "referenced_importable hub_modules \<and>
   \<not> isl (load_config_file hub_modules Map.empty) \<and>
   config (projr (load_config_file hub_modules Map.empty))
     (''ConfigurableHTTPProxy'', ''debug'') = Some (PyBool True) \<and>
   config (projr (load_config_file hub_modules Map.empty)) (''Spawner'', ''debug'') =
     Some (PyBool True) \<and>
   config (projr (load_config_file hub_modules Map.empty)) (''JupyterHub'', ''log_level'') =
     Some (PyInt 10)"
proof -
  from debug_settings_loaded [OF hub_modules_importable, of Map.empty]
  obtain s where "load_config_file hub_modules Map.empty = Inr s"
    and "config s (''ConfigurableHTTPProxy'', ''debug'') = Some (PyBool True)"
    and "config s (''Spawner'', ''debug'') = Some (PyBool True)"
    and "config s (''JupyterHub'', ''log_level'') = Some (PyInt 10)"
    by auto
  then show ?thesis using hub_modules_importable by simp
qed

subsection \<open>Placeholder secrets\<close>

text \<open>
  C10. The values stored for the client secret and for the session-signing key are made
  of the letters X and x only: 75 capital X and one small x for the secret, 60 capital X
  and four small x for the key.
\<close>

theorem secrets_are_placeholders:
  assumes "referenced_importable mods"
  shows "\<exists>s secret key. load_config_file mods env = Inr s \<and>
    environ s ''CILOGON_CLIENT_SECRET'' = Some secret \<and>
    environ s ''JUPYTERHUB_CRYPT_KEY'' = Some key \<and>
    secret = replicate 75 CHR ''X'' @ replicate 1 CHR ''x'' \<and>
    key = replicate 60 CHR ''X'' @ replicate 4 CHR ''x'' \<and>
    set secret = {CHR ''X'', CHR ''x''} \<and> set key = {CHR ''X'', CHR ''x''}"
proof -
  have secret: "''XXXXXXXXXXXXXXXXXXXXXXXXXXXXXXXXXXXXXXXXXXXXXXXXXXXXXXXXXXXXXXXXXXXXXXXXXXXx''
      = replicate 75 CHR ''X'' @ replicate 1 CHR ''x''"
    by code_simp
  have key: "''XXXXXXXXXXXXXXXXXXXXXXXXXXXXXXXXXXXXXXXXXXXXXXXXXXXXXXXXXXXXxxxx''
      = replicate 60 CHR ''X'' @ replicate 4 CHR ''x''"
    by code_simp
  have sets: "set (replicate 75 CHR ''X'' @ replicate 1 CHR ''x'') = {CHR ''X'', CHR ''x''}"
    "set (replicate 60 CHR ''X'' @ replicate 4 CHR ''x'') = {CHR ''X'', CHR ''x''}"
    by auto
  from load_state [OF assms, of env] show ?thesis
    unfolding secret key using sets by simp
qed

theorem secrets_are_placeholders_witness:
  "referenced_importable hub_modules \<and>
   \<not> isl (load_config_file hub_modules Map.empty) \<and>
   environ (projr (load_config_file hub_modules Map.empty)) ''CILOGON_CLIENT_SECRET'' =
     Some (replicate 75 CHR ''X'' @ replicate 1 CHR ''x'') \<and>
   environ (projr (load_config_file hub_modules Map.empty)) ''JUPYTERHUB_CRYPT_KEY'' =
     Some (replicate 60 CHR ''X'' @ replicate 4 CHR ''x'')"
proof -
  from secrets_are_placeholders [OF hub_modules_importable, of Map.empty]
  obtain s where "load_config_file hub_modules Map.empty = Inr s"
    and "environ s ''CILOGON_CLIENT_SECRET'' = Some (replicate 75 CHR ''X'' @ replicate 1 CHR ''x'')"
    and "environ s ''JUPYTERHUB_CRYPT_KEY'' = Some (replicate 60 CHR ''X'' @ replicate 4 CHR ''x'')"
    by auto
  then show ?thesis using hub_modules_importable by simp
qed

end
